theory Spec2Isabelle
  imports Complex_Main "HOL-Library.AList"
begin

section \<open>Strings of the client\<close>

text \<open>
  The fossil catalogue (src/contexts/FossilCacheContext.tsx) works on JavaScript strings.
  They are modelled as \<open>string\<close> (lists of 8-bit characters), which covers the ASCII
  fragment: \<open>toLowerCase\<close> maps \<open>A..Z\<close> to \<open>a..z\<close> and leaves every other character,
  \<open>trim\<close> strips the ASCII white space (tab, line feed, vertical tab, form feed,
  carriage return, space) from both ends, and \<open>js_includes s t\<close> is
  \<open>s.includes(t)\<close>: whether \<open>t\<close> occurs in \<open>s\<close> as a contiguous run.
\<close>

definition toLowerCase_char :: "char \<Rightarrow> char" where
  "toLowerCase_char c =
     (let n = (of_char c :: nat) in if 65 \<le> n \<and> n \<le> 90 then char_of (n + 32) else c)"

definition toLowerCase :: "string \<Rightarrow> string" where
  "toLowerCase s = map toLowerCase_char s"

definition is_white_space :: "char \<Rightarrow> bool" where
  "is_white_space c = (let n = (of_char c :: nat) in (9 \<le> n \<and> n \<le> 13) \<or> n = 32)"

definition trim :: "string \<Rightarrow> string" where
  "trim s = rev (dropWhile is_white_space (rev (dropWhile is_white_space s)))"

fun startsWith :: "string \<Rightarrow> string \<Rightarrow> bool" where
  "startsWith s [] = True"
| "startsWith [] (y # ys) = False"
| "startsWith (x # xs) (y # ys) = (x = y \<and> startsWith xs ys)"

fun js_includes :: "string \<Rightarrow> string \<Rightarrow> bool" where
  "js_includes [] t = (t = [])"
| "js_includes (x # xs) t = (startsWith (x # xs) t \<or> js_includes xs t)"

text \<open>
  A value tested for truthiness: an optional string (\<open>undefined\<close>, \<open>null\<close> or a string)
  is truthy when it is a non-empty string.
\<close>

definition truthy :: "string option \<Rightarrow> bool" where
  "truthy v = (case v of None \<Rightarrow> False | Some s \<Rightarrow> s \<noteq> [])"

section \<open>Data model\<close>

text \<open>
  The interfaces \<open>Fossil\<close> and \<open>SearchFilters\<close>. A field typed \<open>T | null\<close> or declared
  optional is an \<open>option\<close>. The identifier field \<open>id\<close> is \<open>id'\<close> here, and the
  filter fields \<open>species\<close>, \<open>location\<close> and \<open>tags\<close> carry the suffix \<open>_filter\<close>, since a
  fossil has fields of the same names.
\<close>

record Fossil =
  id' :: string
  user_id :: string
  species :: "string option"
  description :: string
  location :: "string option"
  discovery_date :: "string option"
  tags :: "string list option"
  image_url :: string
  created_at :: string
  updated_at :: string

record SearchFilters =
  searchQuery :: "string option"
  species_filter :: "string option"
  location_filter :: "string option"
  tags_filter :: "string list option"
  dateFrom :: "string option"
  dateTo :: "string option"

section \<open>The client-side search refiner\<close>

text \<open>
  The callback of \<open>fossils.filter\<close> in \<open>filterFossils\<close>: the four tests and their
  disjunction. \<open>x?.f() || false\<close> is \<open>False\<close> when \<open>x\<close> is null.
\<close>

definition fossil_matches :: "string \<Rightarrow> Fossil \<Rightarrow> bool" where
  "fossil_matches searchTerm fossil =
     (let matchesSpecies =
            (case species fossil of None \<Rightarrow> False
             | Some s \<Rightarrow> js_includes (toLowerCase s) searchTerm);
          matchesLocation =
            (case location fossil of None \<Rightarrow> False
             | Some l \<Rightarrow> js_includes (toLowerCase l) searchTerm);
          matchesDescription = js_includes (toLowerCase (description fossil)) searchTerm;
          matchesTags =
            (case tags fossil of None \<Rightarrow> False
             | Some ts \<Rightarrow> list_ex (\<lambda>tag. js_includes (toLowerCase tag) searchTerm) ts)
      in matchesSpecies \<or> matchesLocation \<or> matchesDescription \<or> matchesTags)"

definition filterFossils :: "Fossil list \<Rightarrow> SearchFilters option \<Rightarrow> Fossil list" where
  "filterFossils fossils filters =
     (case filters of
        None \<Rightarrow> fossils
      | Some f \<Rightarrow>
          (case searchQuery f of
             None \<Rightarrow> fossils
           | Some q \<Rightarrow>
               if q = [] then fossils
               else
                 let searchTerm = trim (toLowerCase q)
                 in if searchTerm = [] then fossils
                    else filter (fossil_matches searchTerm) fossils))"

subsection \<open>The refiner as the specification words it\<close>

text \<open>
  Section 4.2 of the specification, word for word: \<open>occurs_in t s\<close> says that \<open>t\<close> is a
  substring of \<open>s\<close>; \<open>spec_query\<close> is the lowercased, trimmed free-text query, absent
  when there is none or it is empty after trimming (the source lowercases first and
  trims second); \<open>spec_match\<close> is the case-insensitive test against species (if
  present), location (if present), description and each tag.
\<close>

definition occurs_in :: "string \<Rightarrow> string \<Rightarrow> bool" where
  "occurs_in t s = (\<exists>ps ss. s = ps @ t @ ss)"

definition spec_query :: "SearchFilters option \<Rightarrow> string option" where
  "spec_query filters =
     (case filters of
        None \<Rightarrow> None
      | Some f \<Rightarrow>
          (case searchQuery f of
             None \<Rightarrow> None
           | Some q \<Rightarrow> if trim q = [] then None else Some (toLowerCase (trim q))))"

definition spec_match :: "string \<Rightarrow> Fossil \<Rightarrow> bool" where
  "spec_match q fossil =
     ((\<exists>s. species fossil = Some s \<and> occurs_in q (toLowerCase s)) \<or>
      (\<exists>l. location fossil = Some l \<and> occurs_in q (toLowerCase l)) \<or>
      occurs_in q (toLowerCase (description fossil)) \<or>
      (\<exists>ts tag. tags fossil = Some ts \<and> tag \<in> set ts \<and> occurs_in q (toLowerCase tag)))"

section \<open>Thrown values\<close>

text \<open>
  What a \<open>catch\<close> clause receives: an instance of \<open>Error\<close> with its message, or any other
  value (the backend's error objects may be plain objects that carry a message).
  \<open>getErrorMessage\<close> reads the message of an \<open>Error\<close> instance only; its second
  parameter defaults to \<open>DEFAULT_MESSAGE\<close> at every call of the source.
\<close>

datatype thrown = ErrorInstance string | NotAnError string

definition getErrorMessage :: "thrown \<Rightarrow> string \<Rightarrow> string" where
  "getErrorMessage err defaultMsg =
     (case err of ErrorInstance message \<Rightarrow> message | NotAnError _ \<Rightarrow> defaultMsg)"

definition DEFAULT_MESSAGE :: string where
  "DEFAULT_MESSAGE = ''Failed to load fossils''"

section \<open>The remote query builder\<close>

text \<open>
  The backend client is a collaborator outside the repository. A query is the value the
  builder calls of the source assemble: the table and columns of \<open>from(..).select(..)\<close>,
  whether the select asks for \<open>{count: 'exact', head: true}\<close>, the predicate clauses in
  the order they were added, the \<open>order\<close> clauses (column, ascending) and the \<open>range\<close>.
  The builder methods \<open>order\<close> and \<open>range\<close> are \<open>order_q\<close> and \<open>range_q\<close>.
\<close>

datatype clause =
    Ilike string string
  | Contains string "string list"
  | Gte string string
  | Lte string string
  | Eq string string

record query =
  table :: string
  columns :: string
  count_exact_head :: bool
  clauses :: "clause list"
  ordering :: "(string \<times> bool) list"
  row_range :: "(int \<times> int) option"

definition select_from :: "string \<Rightarrow> string \<Rightarrow> bool \<Rightarrow> query" where
  "select_from tbl cols count_head =
     \<lparr>table = tbl, columns = cols, count_exact_head = count_head, clauses = [],
      ordering = [], row_range = None\<rparr>"

definition ilike :: "query \<Rightarrow> string \<Rightarrow> string \<Rightarrow> query" where
  "ilike q col pattern = q\<lparr>clauses := clauses q @ [Ilike col pattern]\<rparr>"

definition contains :: "query \<Rightarrow> string \<Rightarrow> string list \<Rightarrow> query" where
  "contains q col vs = q\<lparr>clauses := clauses q @ [Contains col vs]\<rparr>"

definition gte :: "query \<Rightarrow> string \<Rightarrow> string \<Rightarrow> query" where
  "gte q col v = q\<lparr>clauses := clauses q @ [Gte col v]\<rparr>"

definition lte :: "query \<Rightarrow> string \<Rightarrow> string \<Rightarrow> query" where
  "lte q col v = q\<lparr>clauses := clauses q @ [Lte col v]\<rparr>"

definition eq :: "query \<Rightarrow> string \<Rightarrow> string \<Rightarrow> query" where
  "eq q col v = q\<lparr>clauses := clauses q @ [Eq col v]\<rparr>"

definition order_q :: "query \<Rightarrow> string \<Rightarrow> bool \<Rightarrow> query" where
  "order_q q col ascending = q\<lparr>ordering := ordering q @ [(col, ascending)]\<rparr>"

definition range_q :: "query \<Rightarrow> int \<Rightarrow> int \<Rightarrow> query" where
  "range_q q from to = q\<lparr>row_range := Some (from, to)\<rparr>"

text \<open>
  What an awaited query resolves to (\<open>data\<close>, \<open>count\<close>, \<open>error\<close>), the signed-in user,
  and the remote side as one call sees it: whether \<open>window\<close> is defined (\<open>createClient\<close>
  throws otherwise), the answer to each query and to \<open>auth.getUser()\<close>. An awaited call
  either rejects with a thrown value (\<open>Inl\<close>) or resolves (\<open>Inr\<close>). Theorems quantify
  over every remote.
\<close>

record response =
  res_data :: "Fossil list option"
  res_count :: "int option"
  res_error :: "thrown option"

record User =
  uid :: string

record remote =
  window_defined :: bool
  answer :: "query \<Rightarrow> thrown + response"
  getUser :: "thrown + User option"

definition createClient :: "remote \<Rightarrow> thrown + remote" where
  "createClient r =
     (if \<not> window_defined r
      then Inl (ErrorInstance ''createClient can only be called in the browser'')
      else Inr r)"

text \<open>The requests a call sends to the remote side, in order: its remote-call counter.\<close>

datatype request = AuthGetUser | Select query

section \<open>Filter predicate builder\<close>

definition removeSearchQuery :: "SearchFilters option \<Rightarrow> SearchFilters option" where
  "removeSearchQuery filters =
     (case filters of
        None \<Rightarrow> filters
      | Some f \<Rightarrow> if \<not> truthy (searchQuery f) then filters else Some (f\<lparr>searchQuery := None\<rparr>))"

definition applyFilters :: "query \<Rightarrow> SearchFilters option \<Rightarrow> query" where
  "applyFilters query0 filters =
     (case filters of
        None \<Rightarrow> query0
      | Some f \<Rightarrow>
          let q1 = (case species_filter f of
                      None \<Rightarrow> query0
                    | Some s \<Rightarrow> if s = [] then query0
                               else ilike query0 ''species'' (''%'' @ s @ ''%''));
              q2 = (case location_filter f of
                      None \<Rightarrow> q1
                    | Some l \<Rightarrow> if l = [] then q1
                               else ilike q1 ''location'' (''%'' @ l @ ''%''));
              q3 = (case tags_filter f of
                      None \<Rightarrow> q2
                    | Some ts \<Rightarrow> if length ts > 0 then contains q2 ''tags'' ts else q2);
              q4 = (case dateFrom f of
                      None \<Rightarrow> q3
                    | Some d \<Rightarrow> if d = [] then q3 else gte q3 ''discovery_date'' d);
              q5 = (case dateTo f of
                      None \<Rightarrow> q4
                    | Some d \<Rightarrow> if d = [] then q4 else lte q4 ''discovery_date'' d)
          in q5)"

section \<open>Serialisation and cache keys\<close>

text \<open>
  \<open>JSON.stringify\<close> on a filter object: the properties that are not \<open>undefined\<close>, in
  the order \<open>searchQuery, species, location, tags, dateFrom, dateTo\<close> in which the
  interface declares them and the filter form (the only producer of filter objects)
  writes them; strings quoted as JSON quotes them. \<open>JSON.stringify(undefined)\<close> is
  \<open>undefined\<close>, here \<open>None\<close>. A page number prints in decimal.
\<close>

definition hex_digit :: "nat \<Rightarrow> char" where
  "hex_digit d = (if d < 10 then char_of (48 + d) else char_of (87 + d))"

definition json_escape :: "char \<Rightarrow> string" where
  "json_escape c =
     (let n = (of_char c :: nat) in
      if n = 34 then [char_of (92 :: nat), char_of (34 :: nat)]
      else if n = 92 then [char_of (92 :: nat), char_of (92 :: nat)]
      else if n = 8 then [char_of (92 :: nat), CHR ''b'']
      else if n = 9 then [char_of (92 :: nat), CHR ''t'']
      else if n = 10 then [char_of (92 :: nat), CHR ''n'']
      else if n = 12 then [char_of (92 :: nat), CHR ''f'']
      else if n = 13 then [char_of (92 :: nat), CHR ''r'']
      else if n < 32
        then [char_of (92 :: nat), CHR ''u'', CHR ''0'', CHR ''0'',
              hex_digit (n div 16), hex_digit (n mod 16)]
      else [c])"

definition json_string :: "string \<Rightarrow> string" where
  "json_string s = [char_of (34 :: nat)] @ concat (map json_escape s) @ [char_of (34 :: nat)]"

fun join :: "string \<Rightarrow> string list \<Rightarrow> string" where
  "join sep [] = []"
| "join sep [x] = x"
| "join sep (x # y # ys) = x @ sep @ join sep (y # ys)"

definition json_property :: "string \<Rightarrow> string option \<Rightarrow> string list" where
  "json_property key v =
     (case v of None \<Rightarrow> [] | Some s \<Rightarrow> [json_string key @ '':'' @ json_string s])"

definition json_array_property :: "string \<Rightarrow> string list option \<Rightarrow> string list" where
  "json_array_property key v =
     (case v of
        None \<Rightarrow> []
      | Some ts \<Rightarrow> [json_string key @ '':['' @ join '','' (map json_string ts) @ '']''])"

definition stringify_filters :: "SearchFilters \<Rightarrow> string" where
  "stringify_filters f =
     ''{'' @
     join '',''
       (json_property ''searchQuery'' (searchQuery f) @
        json_property ''species'' (species_filter f) @
        json_property ''location'' (location_filter f) @
        json_array_property ''tags'' (tags_filter f) @
        json_property ''dateFrom'' (dateFrom f) @
        json_property ''dateTo'' (dateTo f)) @
     ''}''"

definition JSON_stringify :: "SearchFilters option \<Rightarrow> string option" where
  "JSON_stringify filters = map_option stringify_filters filters"

fun nat_to_string :: "nat \<Rightarrow> string" where
  "nat_to_string n =
     (if n < 10 then [char_of (48 + n)]
      else nat_to_string (n div 10) @ [char_of (48 + n mod 10)])"

definition number_to_string :: "int \<Rightarrow> string" where
  "number_to_string i =
     (if i < 0 then ''-'' @ nat_to_string (nat (- i)) else nat_to_string (nat i))"

definition buildCacheKey :: "int \<Rightarrow> SearchFilters option \<Rightarrow> string" where
  "buildCacheKey page filters =
     (case filters of
        None \<Rightarrow> ''page-'' @ number_to_string page
      | Some f \<Rightarrow> ''page-'' @ number_to_string page @ ''-'' @ stringify_filters f)"

section \<open>Pagination\<close>

text \<open>
  Page numbers, sizes and counts are JavaScript numbers holding integers; they are
  modelled as unbounded integers, so every product, difference and quotient is exact.
  \<open>page_from\<close> and \<open>page_to\<close> are the constants \<open>from\<close> and \<open>to\<close> of
  \<open>fetchAllFossils\<close>; \<open>totalPages\<close> is the constant of that name of the home page,
  which always asks for \<open>FOSSILS_PER_PAGE\<close> fossils; \<open>js_slice\<close> is
  \<open>Array.prototype.slice\<close> with both arguments given (a negative index counts from the
  end, the end is exclusive).
\<close>

definition page_from :: "int \<Rightarrow> int \<Rightarrow> int" where
  "page_from page pageSize = (page - 1) * pageSize"

definition page_to :: "int \<Rightarrow> int \<Rightarrow> int" where
  "page_to page pageSize = page_from page pageSize + pageSize - 1"

definition FOSSILS_PER_PAGE :: int where
  "FOSSILS_PER_PAGE = 12"

definition totalPages :: "int \<Rightarrow> int" where
  "totalPages totalCount = \<lceil>real_of_int totalCount / real_of_int FOSSILS_PER_PAGE\<rceil>"

definition js_slice :: "'a list \<Rightarrow> int \<Rightarrow> int \<Rightarrow> 'a list" where
  "js_slice xs start end' =
     (let n = int (length xs);
          k = (if start < 0 then max (n + start) 0 else min start n);
          final = (if end' < 0 then max (n + end') 0 else min end' n)
      in take (nat (final - k)) (drop (nat k) xs))"

section \<open>The fossil data context\<close>

text \<open>
  The state hooks of \<open>FossilCacheProvider\<close>. The keyed page cache is a JavaScript \<open>Map\<close>
  from strings; it is an association list read with \<open>map_of\<close> and written with
  \<open>AList.update\<close> (which, as \<open>Map.set\<close>, replaces the value of a key already present).
\<close>

record page_result =
  fossils :: "Fossil list"
  totalCount :: int

record cache_state =
  allFossils :: "Fossil list"
  userFossils :: "Fossil list"
  allFossilsCount :: int
  loadingAll :: bool
  loadingUser :: bool
  errorAll :: string
  errorUser :: string
  allFossilsCache :: "(string \<times> page_result) list"
  userFossilsCached :: bool
  userFossilsFilters :: "SearchFilters option"

definition initial_state :: cache_state where
  "initial_state =
     \<lparr>allFossils = [], userFossils = [], allFossilsCount = 0, loadingAll = False,
      loadingUser = False, errorAll = [], errorUser = [], allFossilsCache = [],
      userFossilsCached = False, userFossilsFilters = None\<rparr>"

text \<open>
  A call of an asynchronous operation, run to completion: what the promise settles to
  (\<open>Inl\<close> a rejection with the thrown value, \<open>Inr\<close> the value it resolves to), the state
  after the call and the requests it sent.

  The operations are callbacks (\<open>useCallback\<close>): a callback is made by a render and
  closes over the state values of its dependency list as that render saw them, while
  the state setters it calls act on the current state. \<open>fetchAllFossils\<close> closes over
  \<open>allFossilsCache\<close>, \<open>fetchUserFossils\<close> over \<open>userFossilsCached\<close> and
  \<open>userFossilsFilters\<close>, \<open>clearCache\<close> over nothing. In \<open>fetchAllFossils_callback
  rendered ... st\<close> and \<open>fetchUserFossils_callback rendered ... st\<close>, \<open>rendered\<close> is the
  state the callback's render saw and \<open>st\<close> the state at the call; \<open>fetchAllFossils\<close>
  and \<open>fetchUserFossils\<close> are the calls through the callback of the current render
  (\<open>rendered = st\<close>), as an effect makes them. Two calls in flight at once are outside
  this model.
\<close>

record 'a run =
  result :: "thrown + 'a"
  state :: cache_state
  requests :: "request list"

subsection \<open>fetchAllFossils\<close>

text \<open>
  The three queries \<open>fetchAllFossils\<close> builds: \<open>countQuery\<close>, the paginated \<open>dataQuery\<close>
  with its \<open>order\<close> and \<open>range\<close>, and the unpaginated \<open>allDataQuery\<close> of the search
  branch.
\<close>

definition countQuery :: "SearchFilters option \<Rightarrow> query" where
  "countQuery filters =
     (let filtersWithoutSearch = removeSearchQuery filters
      in applyFilters (select_from ''fossils'' ''*'' True) filtersWithoutSearch)"

definition dataQuery :: "int \<Rightarrow> int \<Rightarrow> SearchFilters option \<Rightarrow> query" where
  "dataQuery page pageSize filters =
     (let filtersWithoutSearch = removeSearchQuery filters;
          from = page_from page pageSize;
          to = page_to page pageSize
      in range_q
           (order_q (applyFilters (select_from ''fossils'' ''*'' False) filtersWithoutSearch)
              ''created_at'' False)
           from to)"

definition allDataQuery :: "SearchFilters option \<Rightarrow> query" where
  "allDataQuery filters =
     order_q (applyFilters (select_from ''fossils'' ''*'' False) (removeSearchQuery filters))
       ''created_at'' False"

text \<open>\<open>filters?.searchQuery\<close>, and the test that guards the cache lookup.\<close>

definition searchQuery_of :: "SearchFilters option \<Rightarrow> string option" where
  "searchQuery_of filters = (case filters of None \<Rightarrow> None | Some f \<Rightarrow> searchQuery f)"

definition no_filter_set :: "SearchFilters option \<Rightarrow> bool" where
  "no_filter_set filters =
     (case filters of
        None \<Rightarrow> True
      | Some f \<Rightarrow>
          \<not> truthy (searchQuery f) \<and> \<not> truthy (species_filter f) \<and>
          \<not> truthy (location_filter f) \<and>
          \<not> (case tags_filter f of None \<Rightarrow> False | Some ts \<Rightarrow> length ts \<noteq> 0) \<and>
          \<not> truthy (dateFrom f) \<and> \<not> truthy (dateTo f))"

definition cache_lookup :: "int \<Rightarrow> SearchFilters option \<Rightarrow> cache_state \<Rightarrow> page_result option" where
  "cache_lookup page filters st =
     (let cacheKey = buildCacheKey page filters
      in if no_filter_set filters then map_of (allFossilsCache st) cacheKey else None)"

text \<open>
  The body of the \<open>try\<close> block, from \<open>setLoadingAll(true)\<close> to the \<open>return\<close>: at a
  \<open>throw\<close> or a rejected \<open>await\<close> it stops with the state written so far.
\<close>

definition fetchAllFossils_try ::
  "remote \<Rightarrow> int \<Rightarrow> int \<Rightarrow> SearchFilters option \<Rightarrow> cache_state \<Rightarrow> page_result run" where
  "fetchAllFossils_try r page pageSize filters st0 =
     (let cacheKey = buildCacheKey page filters;
          st1 = st0\<lparr>loadingAll := True, errorAll := []\<rparr>
      in case createClient r of
           Inl err \<Rightarrow> \<lparr>result = Inl err, state = st1, requests = []\<rparr>
         | Inr supabase \<Rightarrow>
             let cq = countQuery filters;
                 dq = dataQuery page pageSize filters
             in case answer supabase cq of
                  Inl err \<Rightarrow> \<lparr>result = Inl err, state = st1, requests = [Select cq]\<rparr>
                | Inr countRes \<Rightarrow>
                    let totalCount = (case res_count countRes of None \<Rightarrow> 0 | Some c \<Rightarrow> c)
                    in case answer supabase dq of
                         Inl err \<Rightarrow>
                           \<lparr>result = Inl err, state = st1, requests = [Select cq, Select dq]\<rparr>
                       | Inr dataRes \<Rightarrow>
                           (case res_error dataRes of
                              Some fetchError \<Rightarrow>
                                \<lparr>result = Inl fetchError, state = st1,
                                 requests = [Select cq, Select dq]\<rparr>
                            | None \<Rightarrow>
                                let fossils0 = (case res_data dataRes of None \<Rightarrow> [] | Some d \<Rightarrow> d)
                                in if truthy (searchQuery_of filters)
                                   then
                                     let aq = allDataQuery filters
                                     in case answer supabase aq of
                                          Inl err \<Rightarrow>
                                            \<lparr>result = Inl err, state = st1,
                                             requests = [Select cq, Select dq, Select aq]\<rparr>
                                        | Inr allRes \<Rightarrow>
                                            let allFossilsData =
                                                  (case res_data allRes of None \<Rightarrow> [] | Some d \<Rightarrow> d);
                                                filteredAll = filterFossils allFossilsData filters;
                                                st2 = st1\<lparr>allFossilsCount := int (length filteredAll)\<rparr>;
                                                fossils1 = filterFossils fossils0 filters;
                                                filteredFrom = (page - 1) * pageSize;
                                                filteredTo = filteredFrom + pageSize;
                                                fossils2 = js_slice filteredAll filteredFrom filteredTo;
                                                st3 = st2\<lparr>allFossils := fossils2\<rparr>
                                            in \<lparr>result =
                                                  Inr \<lparr>fossils = fossils2,
                                                       totalCount =
                                                         (if truthy (searchQuery_of filters)
                                                          then int (length fossils2)
                                                          else totalCount)\<rparr>,
                                                state = st3,
                                                requests = [Select cq, Select dq, Select aq]\<rparr>
                                   else
                                     let st2 = st1\<lparr>allFossilsCount := totalCount\<rparr>;
                                         st3 = st2\<lparr>allFossils := fossils0\<rparr>;
                                         entry =
                                           \<lparr>fossils = fossils0,
                                            totalCount =
                                              (if truthy (searchQuery_of filters)
                                               then int (length fossils0) else totalCount)\<rparr>;
                                         st4 = st3\<lparr>allFossilsCache :=
                                                   AList.update cacheKey entry (allFossilsCache st3)\<rparr>
                                     in \<lparr>result = Inr entry, state = st4,
                                         requests = [Select cq, Select dq]\<rparr>))"

text \<open>
  The whole operation: the cache lookup, then the \<open>try\<close> block with its \<open>catch\<close>
  (record the message, rethrow) and its \<open>finally\<close> (reset the loading flag).
\<close>

definition fetchAllFossils_callback ::
  "cache_state \<Rightarrow> remote \<Rightarrow> int \<Rightarrow> int \<Rightarrow> SearchFilters option \<Rightarrow> cache_state \<Rightarrow>
     page_result run" where
  "fetchAllFossils_callback rendered r page pageSize filters st =
     (case cache_lookup page filters rendered of
        Some cached \<Rightarrow>
          \<lparr>result = Inr cached,
           state = st\<lparr>allFossils := fossils cached, allFossilsCount := totalCount cached\<rparr>,
           requests = []\<rparr>
      | None \<Rightarrow>
          let t = fetchAllFossils_try r page pageSize filters st
          in case result t of
               Inl err \<Rightarrow>
                 t\<lparr>state := (state t)\<lparr>errorAll := getErrorMessage err DEFAULT_MESSAGE,
                                       loadingAll := False\<rparr>\<rparr>
             | Inr v \<Rightarrow> t\<lparr>state := (state t)\<lparr>loadingAll := False\<rparr>\<rparr>)"

definition fetchAllFossils ::
  "remote \<Rightarrow> int \<Rightarrow> int \<Rightarrow> SearchFilters option \<Rightarrow> cache_state \<Rightarrow> page_result run" where
  "fetchAllFossils r page pageSize filters st =
     fetchAllFossils_callback st r page pageSize filters st"

subsection \<open>fetchUserFossils\<close>

definition userQuery :: "User \<Rightarrow> SearchFilters option \<Rightarrow> query" where
  "userQuery user filters =
     order_q
       (applyFilters (eq (select_from ''fossils'' ''*'' False) ''user_id'' (uid user))
          (removeSearchQuery filters))
       ''created_at'' False"

definition NOT_LOGGED_IN :: string where
  "NOT_LOGGED_IN = ''You must be logged in to view your fossils''"

definition filtersMatch :: "SearchFilters option \<Rightarrow> cache_state \<Rightarrow> bool" where
  "filtersMatch filters st = (JSON_stringify filters = JSON_stringify (userFossilsFilters st))"

definition fetchUserFossils_try ::
  "remote \<Rightarrow> SearchFilters option \<Rightarrow> cache_state \<Rightarrow> unit run" where
  "fetchUserFossils_try r filters st0 =
     (let st1 = st0\<lparr>loadingUser := True, errorUser := []\<rparr>
      in case createClient r of
           Inl err \<Rightarrow> \<lparr>result = Inl err, state = st1, requests = []\<rparr>
         | Inr supabase \<Rightarrow>
             (case getUser supabase of
                Inl err \<Rightarrow> \<lparr>result = Inl err, state = st1, requests = [AuthGetUser]\<rparr>
              | Inr None \<Rightarrow>
                  \<lparr>result = Inr (),
                   state = st1\<lparr>errorUser := NOT_LOGGED_IN, loadingUser := False\<rparr>,
                   requests = [AuthGetUser]\<rparr>
              | Inr (Some user) \<Rightarrow>
                  let uq = userQuery user filters
                  in case answer supabase uq of
                       Inl err \<Rightarrow>
                         \<lparr>result = Inl err, state = st1, requests = [AuthGetUser, Select uq]\<rparr>
                     | Inr res \<Rightarrow>
                         (case res_error res of
                            Some fetchError \<Rightarrow>
                              \<lparr>result = Inl fetchError, state = st1,
                               requests = [AuthGetUser, Select uq]\<rparr>
                          | None \<Rightarrow>
                              let fossils0 = (case res_data res of None \<Rightarrow> [] | Some d \<Rightarrow> d);
                                  fossils1 = (if truthy (searchQuery_of filters)
                                              then filterFossils fossils0 filters else fossils0);
                                  st2 = st1\<lparr>userFossils := fossils1, userFossilsCached := True,
                                           userFossilsFilters := filters\<rparr>
                              in \<lparr>result = Inr (), state = st2,
                                  requests = [AuthGetUser, Select uq]\<rparr>)))"

text \<open>
  The whole operation: the loaded-flag test, then the \<open>try\<close> block with its \<open>catch\<close>
  (record the message, do not rethrow) and its \<open>finally\<close>.
\<close>

definition fetchUserFossils_callback ::
  "cache_state \<Rightarrow> remote \<Rightarrow> SearchFilters option \<Rightarrow> cache_state \<Rightarrow> unit run" where
  "fetchUserFossils_callback rendered r filters st =
     (if userFossilsCached rendered \<and> filtersMatch filters rendered
      then \<lparr>result = Inr (), state = st, requests = []\<rparr>
      else
        let t = fetchUserFossils_try r filters st
        in case result t of
             Inl err \<Rightarrow>
               \<lparr>result = Inr (),
                state = (state t)\<lparr>errorUser := getErrorMessage err DEFAULT_MESSAGE,
                                   loadingUser := False\<rparr>,
                requests = requests t\<rparr>
           | Inr v \<Rightarrow> t\<lparr>state := (state t)\<lparr>loadingUser := False\<rparr>\<rparr>)"

definition fetchUserFossils :: "remote \<Rightarrow> SearchFilters option \<Rightarrow> cache_state \<Rightarrow> unit run" where
  "fetchUserFossils r filters st = fetchUserFossils_callback st r filters st"

subsection \<open>clearCache\<close>

definition clearCache :: "cache_state \<Rightarrow> cache_state" where
  "clearCache st =
     st\<lparr>allFossils := [], userFossils := [], allFossilsCache := [],
        userFossilsCached := False, errorAll := [], errorUser := []\<rparr>"

section \<open>A reference remote for running the operations\<close>

text \<open>
  The remote store is outside the repository, so the theorems below hold for every
  remote. To run the operations on concrete inputs, \<open>table_remote user rows\<close> answers
  queries from a list of rows the way section 6 of the specification describes the
  store: \<open>ilike\<close> is a case-insensitive pattern match (\<open>%\<close> any run, \<open>_\<close> any one
  character), \<open>contains\<close> asks for every listed tag, \<open>gte\<close> and \<open>lte\<close> compare text
  columns in dictionary order and never hold of a null, \<open>order\<close> sorts stably (nulls
  count as largest), \<open>range\<close> keeps the rows \<open>from..to\<close> inclusive, and a counted head
  select returns the number of matching rows and no data. \<open>failing_remote e\<close> answers
  every query with the error \<open>e\<close>.
\<close>

definition text_column :: "string \<Rightarrow> Fossil \<Rightarrow> string option" where
  "text_column col row =
     (if col = ''id'' then Some (id' row)
      else if col = ''user_id'' then Some (user_id row)
      else if col = ''species'' then species row
      else if col = ''description'' then Some (description row)
      else if col = ''location'' then location row
      else if col = ''discovery_date'' then discovery_date row
      else if col = ''image_url'' then Some (image_url row)
      else if col = ''created_at'' then Some (created_at row)
      else if col = ''updated_at'' then Some (updated_at row)
      else None)"

fun like_match :: "string \<Rightarrow> string \<Rightarrow> bool" where
  "like_match [] [] = True"
| "like_match [] (c # cs) = False"
| "like_match (p # ps) [] = (p = CHR ''%'' \<and> like_match ps [])"
| "like_match (p # ps) (c # cs) =
     (if p = CHR ''%'' then like_match ps (c # cs) \<or> like_match (p # ps) cs
      else (p = CHR ''_'' \<or> p = c) \<and> like_match ps cs)"

fun text_less :: "string \<Rightarrow> string \<Rightarrow> bool" where
  "text_less [] [] = False"
| "text_less [] (y # ys) = True"
| "text_less (x # xs) [] = False"
| "text_less (x # xs) (y # ys) =
     ((of_char x :: nat) < of_char y \<or> (x = y \<and> text_less xs ys))"

definition satisfies :: "Fossil \<Rightarrow> clause \<Rightarrow> bool" where
  "satisfies row c =
     (case c of
        Ilike col pattern \<Rightarrow>
          (case text_column col row of
             None \<Rightarrow> False
           | Some v \<Rightarrow> like_match (toLowerCase pattern) (toLowerCase v))
      | Contains col vs \<Rightarrow>
          (case tags row of
             None \<Rightarrow> False
           | Some ts \<Rightarrow> col = ''tags'' \<and> list_all (\<lambda>v. List.member ts v) vs)
      | Gte col v \<Rightarrow>
          (case text_column col row of None \<Rightarrow> False | Some x \<Rightarrow> \<not> text_less x v)
      | Lte col v \<Rightarrow>
          (case text_column col row of None \<Rightarrow> False | Some x \<Rightarrow> \<not> text_less v x)
      | Eq col v \<Rightarrow> text_column col row = Some v)"

definition key_less :: "string option \<Rightarrow> string option \<Rightarrow> bool" where
  "key_less a b =
     (case a of
        None \<Rightarrow> False
      | Some x \<Rightarrow> (case b of None \<Rightarrow> True | Some y \<Rightarrow> text_less x y))"

fun comes_first :: "(string \<times> bool) list \<Rightarrow> Fossil \<Rightarrow> Fossil \<Rightarrow> bool" where
  "comes_first [] a b = True"
| "comes_first ((col, ascending) # os) a b =
     (let ka = text_column col a; kb = text_column col b
      in if ka = kb then comes_first os a b
         else if ascending then key_less ka kb else key_less kb ka)"

fun insert_row :: "(string \<times> bool) list \<Rightarrow> Fossil \<Rightarrow> Fossil list \<Rightarrow> Fossil list" where
  "insert_row os x [] = [x]"
| "insert_row os x (y # ys) =
     (if comes_first os x y then x # y # ys else y # insert_row os x ys)"

definition sort_rows :: "(string \<times> bool) list \<Rightarrow> Fossil list \<Rightarrow> Fossil list" where
  "sort_rows os rows = foldr (insert_row os) rows []"

definition table_answer :: "Fossil list \<Rightarrow> query \<Rightarrow> thrown + response" where
  "table_answer rows q =
     (let matching = filter (\<lambda>row. list_all (satisfies row) (clauses q)) rows;
          sorted = sort_rows (ordering q) matching;
          kept = (case row_range q of
                    None \<Rightarrow> sorted
                  | Some (a, b) \<Rightarrow> take (nat (b - a + 1)) (drop (nat a) sorted))
      in Inr \<lparr>res_data = (if count_exact_head q then None else Some kept),
              res_count = (if count_exact_head q then Some (int (length matching)) else None),
              res_error = None\<rparr>)"

definition table_remote :: "User option \<Rightarrow> Fossil list \<Rightarrow> remote" where
  "table_remote user rows =
     \<lparr>window_defined = True, answer = table_answer rows, getUser = Inr user\<rparr>"

definition failing_remote :: "User option \<Rightarrow> thrown \<Rightarrow> remote" where
  "failing_remote user e =
     \<lparr>window_defined = True,
      answer = (\<lambda>q. Inr \<lparr>res_data = None, res_count = None, res_error = Some e\<rparr>),
      getUser = Inr user\<rparr>"

text \<open>
  The two fossils of the specification's example for the refiner, filter values with
  only a free-text query or only a species, and a user.
\<close>

definition trilobite :: Fossil where
  "trilobite =
     \<lparr>id' = ''f1'', user_id = ''u1'', species = Some ''Trilobite'', description = ''nice'',
      location = Some ''Utah'', discovery_date = Some ''2024-01-02'',
      tags = Some [''paleozoic''], image_url = ''https://img/1'',
      created_at = ''2024-03-01T10:00:00Z'', updated_at = ''2024-03-01T10:00:00Z''\<rparr>"

definition ammonite :: Fossil where
  "ammonite =
     \<lparr>id' = ''f2'', user_id = ''u2'', species = Some ''Ammonite'', description = ''spiral'',
      location = Some ''France'', discovery_date = Some ''2023-05-06'',
      tags = Some [], image_url = ''https://img/2'',
      created_at = ''2024-04-01T10:00:00Z'', updated_at = ''2024-04-01T10:00:00Z''\<rparr>"

definition query_of :: "string \<Rightarrow> SearchFilters option" where
  "query_of q =
     Some \<lparr>searchQuery = Some q, species_filter = None, location_filter = None,
           tags_filter = None, dateFrom = None, dateTo = None\<rparr>"

definition species_only :: "string \<Rightarrow> SearchFilters option" where
  "species_only s =
     Some \<lparr>searchQuery = None, species_filter = Some s, location_filter = None,
           tags_filter = None, dateFrom = None, dateTo = None\<rparr>"

definition alice :: User where
  "alice = \<lparr>uid = ''u1''\<rparr>"

text \<open>
  Two remotes over the same two rows, one with \<open>alice\<close> signed in and one with nobody
  signed in, and a thrown \<open>Error\<close> instance.
\<close>

definition sample_remote :: remote where
  "sample_remote = table_remote (Some alice) [trilobite, ammonite]"

definition signed_out_remote :: remote where
  "signed_out_remote = table_remote None [trilobite, ammonite]"

definition boom :: thrown where
  "boom = ErrorInstance ''boom''"

text \<open>
  An error object of the backend that is not an \<open>Error\<close> instance, with the message it
  carries, and the remote after the ammonite row was deleted.
\<close>

definition denied :: thrown where
  "denied = NotAnError ''permission denied''"


section \<open>Outcomes of remote calls\<close>

text \<open>
  \<open>failure_of\<close> is the failure of an awaited query, if any: the value a rejection
  carries, or the \<open>error\<close> of the response. \<open>user_fetch_succeeds r filters\<close> says that
  the remote \<open>r\<close> lets \<open>fetchUserFossils\<close> reach its last statement: the client can be
  created, a user is signed in, and the user's query resolves without an error.
\<close>

definition failure_of :: "thrown + response \<Rightarrow> thrown option" where
  "failure_of a = (case a of Inl err \<Rightarrow> Some err | Inr res \<Rightarrow> res_error res)"

definition user_fetch_succeeds :: "remote \<Rightarrow> SearchFilters option \<Rightarrow> bool" where
  "user_fetch_succeeds r filters =
     (window_defined r \<and>
      (case getUser r of
         Inl err \<Rightarrow> False
       | Inr None \<Rightarrow> False
       | Inr (Some user) \<Rightarrow>
           (case answer r (userQuery user filters) of
              Inl err \<Rightarrow> False
            | Inr res \<Rightarrow> res_error res = None)))"

section \<open>Shared facts about the operations\<close>

lemma createClient_window: "window_defined r \<Longrightarrow> createClient r = Inr r"
  by (simp add: createClient_def)

lemma fetchAllFossils_hit:
  "cache_lookup page filters st = Some c \<Longrightarrow>
   fetchAllFossils r page pageSize filters st =
     \<lparr>result = Inr c,
      state = st\<lparr>allFossils := fossils c, allFossilsCount := totalCount c\<rparr>,
      requests = []\<rparr>"
  by (simp add: fetchAllFossils_def fetchAllFossils_callback_def)

lemma fetchAllFossils_miss:
  "cache_lookup page filters st = None \<Longrightarrow>
   fetchAllFossils r page pageSize filters st =
     (let t = fetchAllFossils_try r page pageSize filters st
      in case result t of
           Inl err \<Rightarrow>
             t\<lparr>state := (state t)\<lparr>errorAll := getErrorMessage err DEFAULT_MESSAGE,
                                   loadingAll := False\<rparr>\<rparr>
         | Inr v \<Rightarrow> t\<lparr>state := (state t)\<lparr>loadingAll := False\<rparr>\<rparr>)"
  by (simp add: fetchAllFossils_def fetchAllFossils_callback_def)

lemma try_throws_state:
  "result (fetchAllFossils_try r page pageSize filters st) = Inl e \<Longrightarrow>
   state (fetchAllFossils_try r page pageSize filters st) = st\<lparr>loadingAll := True, errorAll := []\<rparr>"
  by (auto simp: fetchAllFossils_try_def Let_def split: sum.splits option.splits if_splits)

lemma try_returns_no_search:
  "\<not> truthy (searchQuery_of filters) \<Longrightarrow>
   result (fetchAllFossils_try r page pageSize filters st) = Inr v \<Longrightarrow>
   state (fetchAllFossils_try r page pageSize filters st) =
     st\<lparr>loadingAll := True, errorAll := [], allFossilsCount := totalCount v,
        allFossils := fossils v,
        allFossilsCache := AList.update (buildCacheKey page filters) v (allFossilsCache st)\<rparr>"
  by (auto simp: fetchAllFossils_try_def Let_def split: sum.splits option.splits if_splits)

lemma try_requests_prefix:
  "window_defined r \<Longrightarrow> answer r (countQuery filters) = Inr cr \<Longrightarrow>
   take 2 (requests (fetchAllFossils_try r page pageSize filters st)) =
     [Select (countQuery filters), Select (dataQuery page pageSize filters)]"
  by (auto simp: fetchAllFossils_try_def createClient_def Let_def split: sum.splits option.splits if_splits)

lemma try_requests_first:
  "window_defined r \<Longrightarrow>
   take 1 (requests (fetchAllFossils_try r page pageSize filters st)) = [Select (countQuery filters)]"
  by (auto simp: fetchAllFossils_try_def createClient_def Let_def split: sum.splits option.splits if_splits)

lemma no_filter_set_no_search: "no_filter_set filters \<Longrightarrow> \<not> truthy (searchQuery_of filters)"
  by (auto simp: no_filter_set_def searchQuery_of_def truthy_def split: option.splits)

lemma map_of_update_same: "map_of (AList.update k v al) k = Some v"
  by (simp add: update_conv')

lemma ordering_applyFilters: "ordering (applyFilters q filters) = ordering q"
  by (simp add: applyFilters_def Let_def ilike_def contains_def gte_def lte_def
      split: option.splits)

lemma row_range_applyFilters: "row_range (applyFilters q filters) = row_range q"
  by (simp add: applyFilters_def Let_def ilike_def contains_def gte_def lte_def
      split: option.splits)

lemma ordering_dataQuery: "ordering (dataQuery page pageSize filters) = [(''created_at'', False)]"
  by (simp add: dataQuery_def Let_def range_q_def order_q_def ordering_applyFilters select_from_def)

lemma row_range_dataQuery:
  "row_range (dataQuery page pageSize filters) =
     Some (page_from page pageSize, page_to page pageSize)"
  by (simp add: dataQuery_def Let_def range_q_def)

lemma try_data_query_failure:
  "window_defined r \<Longrightarrow> answer r (countQuery filters) = Inr cr \<Longrightarrow>
   failure_of (answer r (dataQuery page pageSize filters)) = Some e \<Longrightarrow>
   fetchAllFossils_try r page pageSize filters st =
     \<lparr>result = Inl e, state = st\<lparr>loadingAll := True, errorAll := []\<rparr>,
      requests = [Select (countQuery filters), Select (dataQuery page pageSize filters)]\<rparr>"
  by (auto simp: fetchAllFossils_try_def createClient_def Let_def failure_of_def
      split: sum.splits)

lemma fetchAllFossils_rethrows:
  "cache_lookup page filters st = None \<Longrightarrow>
   result (fetchAllFossils_try r page pageSize filters st) = Inl e \<Longrightarrow>
   result (fetchAllFossils r page pageSize filters st) = Inl e \<and>
   state (fetchAllFossils r page pageSize filters st) =
     st\<lparr>loadingAll := False, errorAll := getErrorMessage e DEFAULT_MESSAGE\<rparr>"
  by (simp add: fetchAllFossils_miss Let_def try_throws_state)

lemma totalPages_div: "totalPages tc = - ((- tc) div 12)"
  unfolding totalPages_def FOSSILS_PER_PAGE_def
  using ceiling_divide_eq_div [of tc 12] by simp

lemma cache_lookup_clearCache: "cache_lookup page filters (clearCache st) = None"
  by (simp add: cache_lookup_def clearCache_def Let_def)

lemma fetchUserFossils_short:
  "userFossilsCached st \<Longrightarrow> filtersMatch filters st \<Longrightarrow>
   fetchUserFossils r filters st = \<lparr>result = Inr (), state = st, requests = []\<rparr>"
  by (simp add: fetchUserFossils_def fetchUserFossils_callback_def)

lemma fetchUserFossils_fresh:
  "\<not> (userFossilsCached st \<and> filtersMatch filters st) \<Longrightarrow>
   fetchUserFossils r filters st =
     (let t = fetchUserFossils_try r filters st
      in case result t of
           Inl err \<Rightarrow>
             \<lparr>result = Inr (),
              state = (state t)\<lparr>errorUser := getErrorMessage err DEFAULT_MESSAGE,
                                 loadingUser := False\<rparr>,
              requests = requests t\<rparr>
         | Inr v \<Rightarrow> t\<lparr>state := (state t)\<lparr>loadingUser := False\<rparr>\<rparr>)"
  by (auto simp: fetchUserFossils_def fetchUserFossils_callback_def)

lemma user_try_succeeds:
  "user_fetch_succeeds r filters \<Longrightarrow>
   \<exists>user res.
     getUser r = Inr (Some user) \<and> answer r (userQuery user filters) = Inr res \<and>
     fetchUserFossils_try r filters st =
       \<lparr>result = Inr (),
        state = st\<lparr>loadingUser := True, errorUser := [],
                  userFossils :=
                    (let d = (case res_data res of None \<Rightarrow> [] | Some d \<Rightarrow> d)
                     in if truthy (searchQuery_of filters) then filterFossils d filters else d),
                  userFossilsCached := True, userFossilsFilters := filters\<rparr>,
        requests = [AuthGetUser, Select (userQuery user filters)]\<rparr>"
  by (auto simp: user_fetch_succeeds_def fetchUserFossils_try_def createClient_def Let_def
      split: sum.splits option.splits)

lemma user_try_throws_state:
  "result (fetchUserFossils_try r filters st) = Inl e \<Longrightarrow>
   state (fetchUserFossils_try r filters st) = st\<lparr>loadingUser := True, errorUser := []\<rparr>"
  by (auto simp: fetchUserFossils_try_def Let_def split: sum.splits option.splits)

lemma user_try_first_request:
  "window_defined r \<Longrightarrow> take 1 (requests (fetchUserFossils_try r filters st)) = [AuthGetUser]"
  by (auto simp: fetchUserFossils_try_def createClient_def Let_def split: sum.splits option.splits)

lemma after_successful_user_fetch:
  assumes "user_fetch_succeeds r filters"
  shows "userFossilsCached (state (fetchUserFossils r filters st)) \<and>
         JSON_stringify (userFossilsFilters (state (fetchUserFossils r filters st))) =
           JSON_stringify filters"
proof -
  let ?short = "userFossilsCached st \<and> filtersMatch filters st"
  show ?thesis
  proof (cases ?short)
    case True
    then show ?thesis by (simp add: fetchUserFossils_short filtersMatch_def)
  next
    case False
    from user_try_succeeds [OF assms, of st] False show ?thesis
      by (auto simp: fetchUserFossils_fresh Let_def)
  qed
qed

section \<open>The search refiner\<close>

lemma startsWith_iff: "startsWith s t \<longleftrightarrow> (\<exists>ss. s = t @ ss)"
  by (induction s t rule: startsWith.induct) auto

lemma js_includes_iff: "js_includes s t \<longleftrightarrow> occurs_in t s"
proof (induction s)
  case Nil
  show ?case by (simp add: occurs_in_def)
next
  case (Cons x xs)
  have "occurs_in t (x # xs) \<longleftrightarrow> (\<exists>ss. x # xs = t @ ss) \<or> occurs_in t xs"
    unfolding occurs_in_def
  proof
    assume "\<exists>ps ss. x # xs = ps @ t @ ss"
    then obtain ps ss where e: "x # xs = ps @ t @ ss" by blast
    show "(\<exists>ss. x # xs = t @ ss) \<or> (\<exists>ps ss. xs = ps @ t @ ss)"
    proof (cases ps)
      case Nil
      with e show ?thesis by auto
    next
      case (Cons p ps')
      with e have "xs = ps' @ t @ ss" by simp
      then show ?thesis by blast
    qed
  next
    assume "(\<exists>ss. x # xs = t @ ss) \<or> (\<exists>ps ss. xs = ps @ t @ ss)"
    then show "\<exists>ps ss. x # xs = ps @ t @ ss"
    proof
      assume "\<exists>ss. x # xs = t @ ss"
      then obtain ss where "x # xs = [] @ t @ ss" by auto
      then show ?thesis by blast
    next
      assume "\<exists>ps ss. xs = ps @ t @ ss"
      then obtain ps ss where "x # xs = (x # ps) @ t @ ss" by auto
      then show ?thesis by blast
    qed
  qed
  with Cons show ?case by (simp add: startsWith_iff)
qed

lemma fossil_matches_spec: "fossil_matches q fossil \<longleftrightarrow> spec_match q fossil"
  by (auto simp: fossil_matches_def spec_match_def js_includes_iff list_ex_iff
      split: option.splits)

lemma is_white_space_lower: "is_white_space (toLowerCase_char c) = is_white_space c"
  by (auto simp: is_white_space_def toLowerCase_char_def Let_def)

lemma white_space_after_lower: "is_white_space \<circ> toLowerCase_char = is_white_space"
  by (rule ext) (simp add: is_white_space_lower)

lemma trim_toLowerCase: "trim (toLowerCase s) = toLowerCase (trim s)"
  by (simp add: trim_def toLowerCase_def dropWhile_map rev_map white_space_after_lower)

lemma toLowerCase_empty: "toLowerCase s = [] \<longleftrightarrow> s = []"
  by (simp add: toLowerCase_def)

lemma filterFossils_no_query:
  "spec_query filters = None \<Longrightarrow> filterFossils fs filters = fs"
  by (auto simp: spec_query_def filterFossils_def trim_toLowerCase toLowerCase_empty Let_def
      split: option.splits if_splits)

lemma filterFossils_query:
  "spec_query filters = Some q \<Longrightarrow> filterFossils fs filters = filter (spec_match q) fs"
proof -
  assume a: "spec_query filters = Some q"
  then obtain f s where f: "filters = Some f" and s: "searchQuery f = Some s"
    and q: "q = toLowerCase (trim s)" and ne: "trim s \<noteq> []"
    by (auto simp: spec_query_def split: option.splits if_splits)
  from ne have "s \<noteq> []" by (auto simp: trim_def)
  moreover from q ne have "trim (toLowerCase s) = q" and "q \<noteq> []"
    by (simp_all add: trim_toLowerCase toLowerCase_empty)
  ultimately have "filterFossils fs filters = filter (fossil_matches q) fs"
    using f s by (simp add: filterFossils_def)
  also have "\<dots> = filter (spec_match q) fs"
    by (rule filter_cong) (simp_all add: fossil_matches_spec)
  finally show ?thesis .
qed

text \<open>
  C3. For every list of fossils and every optional filter value: when the free-text
  query is absent or empty after trimming, \<open>filterFossils\<close> returns its input unchanged;
  otherwise it returns exactly the fossils, in their original relative order, for which
  the lowercased trimmed query is a substring of the lowercased species (when present),
  location (when present), description, or some tag. On the two fossils of the
  specification's example, the query \<open>utah\<close> keeps only the first and \<open>SPIRAL\<close> only
  the second.
\<close>

theorem filterFossils_refines_spec:
  "filterFossils fs filters =
     (case spec_query filters of
        None \<Rightarrow> fs
      | Some q \<Rightarrow> filter (spec_match q) fs) \<and>
   filterFossils [trilobite, ammonite] (query_of ''utah'') = [trilobite] \<and>
   filterFossils [trilobite, ammonite] (query_of ''SPIRAL'') = [ammonite]"
proof -
  have general: "filterFossils fs filters =
     (case spec_query filters of
        None \<Rightarrow> fs
      | Some q \<Rightarrow> filter (spec_match q) fs)"
    by (simp add: filterFossils_no_query filterFossils_query split: option.splits)
  have utah: "filterFossils [trilobite, ammonite] (query_of ''utah'') = [trilobite]"
    by code_simp
  have spiral: "filterFossils [trilobite, ammonite] (query_of ''SPIRAL'') = [ammonite]"
    by code_simp
  from general utah spiral show ?thesis by blast
qed

section \<open>fetchAllFossils\<close>

text \<open>
  C1. The claim: with a free-text query that is not empty after trimming, the
  \<open>totalCount\<close> of the returned pair is the number of fossils of the full
  backend-matching set that pass the refiner, not the length of the returned page. The
  code writes that number to the state (\<open>setAllFossilsCount(filteredAll.length)\<close>) but
  returns \<open>fossils.length\<close>, the length of the page slice. On the two sample rows, page
  1 of size 1 and the query \<open>a\<close>: both rows match, the state's count is 2, and the
  returned \<open>totalCount\<close> is 1.
\<close>

theorem fetchAllFossils_search_totalCount_is_page_length:
  "answer sample_remote (allDataQuery (query_of ''a'')) =
     Inr \<lparr>res_data = Some [ammonite, trilobite], res_count = None, res_error = None\<rparr> \<and>
   filterFossils [ammonite, trilobite] (query_of ''a'') = [ammonite, trilobite] \<and>
   result (fetchAllFossils sample_remote 1 1 (query_of ''a'') initial_state) =
     Inr \<lparr>fossils = [ammonite], totalCount = 1\<rparr> \<and>
   allFossilsCount (state (fetchAllFossils sample_remote 1 1 (query_of ''a'') initial_state)) = 2"
  by code_simp

text \<open>
  The same holds at every input: with a truthy free-text query, a call that returns
  hands back the length of its own page as \<open>totalCount\<close>.
\<close>

lemma fetchAllFossils_search_returns_page_length:
  assumes q: "truthy (searchQuery_of filters)"
    and ok: "result (fetchAllFossils r page pageSize filters st) = Inr v"
  shows "totalCount v = int (length (fossils v))"
proof -
  from q have "\<not> no_filter_set filters"
    by (auto simp: no_filter_set_def searchQuery_of_def truthy_def split: option.splits)
  then have miss: "cache_lookup page filters st = None"
    by (simp add: cache_lookup_def)
  from ok have "result (fetchAllFossils_try r page pageSize filters st) = Inr v"
    by (auto simp: fetchAllFossils_miss [OF miss] Let_def split: sum.splits)
  with q show ?thesis
    by (auto simp: fetchAllFossils_try_def Let_def split: sum.splits option.splits if_splits)
qed

text \<open>
  C2, as stated, fails: a filter value with no free-text query but with a species
  is written to the cache and never looked up. After a successful first call, the
  identical second call sends the count query and the data query again.
\<close>

theorem fetchAllFossils_filtered_repeat_refetches:
  "searchQuery_of (species_only ''tri'') = None \<and>
   result (fetchAllFossils sample_remote 1 12 (species_only ''tri'') initial_state) =
     Inr \<lparr>fossils = [trilobite], totalCount = 1\<rparr> \<and>
   requests
     (fetchAllFossils sample_remote 1 12 (species_only ''tri'')
        (state (fetchAllFossils sample_remote 1 12 (species_only ''tri'') initial_state))) =
     [Select (countQuery (species_only ''tri'')), Select (dataQuery 1 12 (species_only ''tri''))]"
  by code_simp

text \<open>
  C2, amended. For every filter argument in which no field is set (filters absent, or
  every string field absent or empty and the tag list absent or empty) and every page:
  after one successful \<open>fetchAllFossils(page, pageSize, filters)\<close>, a repeated call with
  the same page and filters (whatever the remote and the page size of the repeat)
  resolves to the same pair, sends no request and leaves the state as it is. A filter
  argument with some field set is never looked up: on any state its call starts with
  the count query.
\<close>

theorem fetchAllFossils_repeat_served_from_cache:
  "(no_filter_set filters \<and> result (fetchAllFossils r page pageSize filters st) = Inr v \<longrightarrow>
      fetchAllFossils r' page pageSize' filters
          (state (fetchAllFossils r page pageSize filters st)) =
        \<lparr>result = Inr v, state = state (fetchAllFossils r page pageSize filters st),
         requests = []\<rparr>) \<and>
   (\<not> no_filter_set filters \<and> window_defined r' \<longrightarrow>
      take 1 (requests (fetchAllFossils r' page pageSize' filters st')) =
        [Select (countQuery filters)])"
proof -
  let ?first = "fetchAllFossils r page pageSize filters st"
  let ?c = "cache_lookup page filters st"
  have served: "fetchAllFossils r' page pageSize' filters (state ?first) =
        \<lparr>result = Inr v, state = state ?first, requests = []\<rparr>"
    if nf: "no_filter_set filters" and ok: "result ?first = Inr v"
  proof -
    have look: "cache_lookup page filters (state ?first) = Some v \<and>
                allFossils (state ?first) = fossils v \<and>
                allFossilsCount (state ?first) = totalCount v"
    proof (cases ?c)
      case None
      let ?t = "fetchAllFossils_try r page pageSize filters st"
      from None ok have t: "result ?t = Inr v"
        by (auto simp: fetchAllFossils_miss Let_def split: sum.splits)
      from nf have ns: "\<not> truthy (searchQuery_of filters)"
        by (rule no_filter_set_no_search)
      from None t have "state ?first = (state ?t)\<lparr>loadingAll := False\<rparr>"
        by (simp add: fetchAllFossils_miss Let_def)
      then show ?thesis
        using try_returns_no_search [OF ns t] nf
        by (simp add: cache_lookup_def map_of_update_same)
    next
      case (Some c)
      with ok have "c = v" by (simp add: fetchAllFossils_hit)
      with Some nf show ?thesis
        by (simp add: fetchAllFossils_hit cache_lookup_def)
    qed
    then show ?thesis by (simp add: fetchAllFossils_hit)
  qed
  have refetch: "take 1 (requests (fetchAllFossils r' page pageSize' filters st')) =
        [Select (countQuery filters)]"
    if "\<not> no_filter_set filters" and win: "window_defined r'"
  proof -
    from that(1) have miss: "cache_lookup page filters st' = None"
      by (simp add: cache_lookup_def)
    show ?thesis
      using try_requests_first [OF win, of page pageSize' filters st']
      by (simp add: fetchAllFossils_miss [OF miss] Let_def split: sum.splits)
  qed
  from served refetch show ?thesis by blast
qed

text \<open>
  The amended C2 at concrete inputs: no filters on page 1 (served from the cache, even
  by a remote with nobody signed in and a different page size), and a species filter
  (queried again).
\<close>

theorem fetchAllFossils_repeat_served_from_cache_witness:
  "no_filter_set None \<and>
   result (fetchAllFossils sample_remote 1 12 None initial_state) =
     Inr \<lparr>fossils = [ammonite, trilobite], totalCount = 2\<rparr> \<and>
   fetchAllFossils signed_out_remote 1 5 None
       (state (fetchAllFossils sample_remote 1 12 None initial_state)) =
     \<lparr>result = Inr \<lparr>fossils = [ammonite, trilobite], totalCount = 2\<rparr>,
      state = state (fetchAllFossils sample_remote 1 12 None initial_state),
      requests = []\<rparr> \<and>
   \<not> no_filter_set (species_only ''tri'') \<and>
   window_defined sample_remote \<and>
   take 1 (requests (fetchAllFossils sample_remote 1 12 (species_only ''tri'')
       (state (fetchAllFossils sample_remote 1 12 (species_only ''tri'') initial_state)))) =
     [Select (countQuery (species_only ''tri''))]"
proof -
  have nf: "no_filter_set None" by code_simp
  have ok: "result (fetchAllFossils sample_remote 1 12 None initial_state) =
     Inr \<lparr>fossils = [ammonite, trilobite], totalCount = 2\<rparr>" by code_simp
  have set: "\<not> no_filter_set (species_only ''tri'')" by code_simp
  have win: "window_defined sample_remote" by code_simp
  show ?thesis
    using fetchAllFossils_repeat_served_from_cache
      [where filters = None and r = sample_remote and page = 1 and pageSize = 12
         and st = initial_state and r' = signed_out_remote and pageSize' = 5
         and v = "\<lparr>fossils = [ammonite, trilobite], totalCount = 2\<rparr>"]
      fetchAllFossils_repeat_served_from_cache
      [where filters = "species_only ''tri''" and r' = sample_remote and page = 1
         and pageSize' = 12
         and st' = "state (fetchAllFossils sample_remote 1 12 (species_only ''tri'')
                      initial_state)"]
      nf ok set win
    by blast
qed

text \<open>
  C4, as stated, fails: the data query carries one \<open>order\<close> clause, \<open>created_at\<close>
  descending, and none on \<open>discovery_date\<close>. On the two sample rows the ammonite
  (discovered 2023-05-06, created later) comes before the trilobite (discovered
  2024-01-02).
\<close>

theorem dataQuery_not_ordered_by_discovery_date:
  "requests (fetchAllFossils sample_remote 1 12 None initial_state) =
     [Select (countQuery None), Select (dataQuery 1 12 None)] \<and>
   ordering (dataQuery 1 12 None) = [(''created_at'', False)] \<and>
   ordering (dataQuery 1 12 None) \<noteq> [(''discovery_date'', False), (''created_at'', False)] \<and>
   result (fetchAllFossils sample_remote 1 12 None initial_state) =
     Inr \<lparr>fossils = [ammonite, trilobite], totalCount = 2\<rparr> \<and>
   discovery_date ammonite = Some ''2023-05-06'' \<and>
   discovery_date trilobite = Some ''2024-01-02''"
  by code_simp

text \<open>
  C4, amended. On a cache miss (with a client and an answer to the count query), the
  second request of \<open>fetchAllFossils\<close> is the data query; it orders by creation
  timestamp descending only, and carries the pagination range \<open>from..to\<close>.
\<close>

theorem dataQuery_ordered_by_created_at:
  assumes miss: "cache_lookup page filters st = None"
    and win: "window_defined r"
    and cnt: "answer r (countQuery filters) = Inr cr"
  shows "take 2 (requests (fetchAllFossils r page pageSize filters st)) =
           [Select (countQuery filters), Select (dataQuery page pageSize filters)] \<and>
         ordering (dataQuery page pageSize filters) = [(''created_at'', False)] \<and>
         row_range (dataQuery page pageSize filters) =
           Some (page_from page pageSize, page_to page pageSize)"
proof -
  have "requests (fetchAllFossils r page pageSize filters st) =
        requests (fetchAllFossils_try r page pageSize filters st)"
    using miss by (simp add: fetchAllFossils_miss Let_def split: sum.splits)
  then show ?thesis
    using try_requests_prefix [OF win cnt] by (simp add: ordering_dataQuery row_range_dataQuery)
qed

text \<open>
  The amended C4 at page 2 of size 1 with a species filter.
\<close>

theorem dataQuery_ordered_by_created_at_witness:
  "cache_lookup 2 (species_only ''ite'') initial_state = None \<and>
   window_defined sample_remote \<and>
   answer sample_remote (countQuery (species_only ''ite'')) =
     Inr \<lparr>res_data = None, res_count = Some 2, res_error = None\<rparr> \<and>
   take 2 (requests (fetchAllFossils sample_remote 2 1 (species_only ''ite'') initial_state)) =
     [Select (countQuery (species_only ''ite'')), Select (dataQuery 2 1 (species_only ''ite''))] \<and>
   ordering (dataQuery 2 1 (species_only ''ite'')) = [(''created_at'', False)] \<and>
   row_range (dataQuery 2 1 (species_only ''ite'')) = Some (page_from 2 1, page_to 2 1)"
proof -
  have miss: "cache_lookup 2 (species_only ''ite'') initial_state = None" by code_simp
  have win: "window_defined sample_remote" by code_simp
  have cnt: "answer sample_remote (countQuery (species_only ''ite'')) =
     Inr \<lparr>res_data = None, res_count = Some 2, res_error = None\<rparr>" by code_simp
  show ?thesis
    using dataQuery_ordered_by_created_at [OF miss win cnt, of 1] miss win cnt by blast
qed

text \<open>
  C5. For every page counted from 1 and every positive page size, the range of the
  data query starts at \<open>(page - 1) * pageSize\<close> and ends, inclusively, at that offset
  plus \<open>pageSize - 1\<close>: it is not negative, holds exactly \<open>pageSize\<close> rows and the next
  page starts right after it. For every total count that is not negative,
  \<open>totalPages\<close> is the ceiling of the count over the page size (the home page's
  \<open>FOSSILS_PER_PAGE\<close>, which it also passes as \<open>pageSize\<close>): the least number of pages
  that hold all rows. A count of 0 gives 0 pages; a count of 25 gives 3 pages of 12,
  and row 24 is the only one of the 25 on page 3.
\<close>

theorem pagination_calculator:
  assumes page: "1 \<le> page" and size: "0 < pageSize" and count: "0 \<le> tc"
  shows "page_from page pageSize = (page - 1) * pageSize \<and>
         page_to page pageSize = page_from page pageSize + pageSize - 1 \<and>
         row_range (dataQuery page pageSize filters) =
           Some ((page - 1) * pageSize, (page - 1) * pageSize + pageSize - 1) \<and>
         0 \<le> page_from page pageSize \<and>
         page_to page pageSize - page_from page pageSize + 1 = pageSize \<and>
         page_from (page + 1) pageSize = page_to page pageSize + 1 \<and>
         totalPages tc = \<lceil>real_of_int tc / real_of_int FOSSILS_PER_PAGE\<rceil> \<and>
         0 \<le> totalPages tc \<and>
         tc \<le> totalPages tc * FOSSILS_PER_PAGE \<and>
         (totalPages tc - 1) * FOSSILS_PER_PAGE < tc \<and>
         totalPages 0 = 0 \<and>
         FOSSILS_PER_PAGE = 12 \<and>
         totalPages 25 = 3 \<and>
         {i. 0 \<le> i \<and> i < 25 \<and> page_from 3 12 \<le> i \<and> i \<le> page_to 3 12} = {24} \<and>
         js_slice [0 ..< 25] (page_from 3 12) (page_from 3 12 + 12) = [24]"
proof -
  have a: "page_from page pageSize = (page - 1) * pageSize"
    by (simp add: page_from_def)
  have b: "page_to page pageSize = page_from page pageSize + pageSize - 1"
    by (simp add: page_to_def)
  have c: "row_range (dataQuery page pageSize filters) =
           Some ((page - 1) * pageSize, (page - 1) * pageSize + pageSize - 1)"
    by (simp add: row_range_dataQuery page_to_def page_from_def)
  have d: "0 \<le> page_from page pageSize"
    using page size by (simp add: page_from_def)
  have e: "page_to page pageSize - page_from page pageSize + 1 = pageSize"
    by (simp add: page_to_def)
  have f: "page_from (page + 1) pageSize = page_to page pageSize + 1"
    by (simp add: page_to_def page_from_def algebra_simps)
  have g: "totalPages tc = \<lceil>real_of_int tc / real_of_int FOSSILS_PER_PAGE\<rceil>"
    by (simp add: totalPages_def)
  have h: "0 \<le> totalPages tc"
    using count unfolding totalPages_div by linarith
  have i: "tc \<le> totalPages tc * FOSSILS_PER_PAGE"
    unfolding totalPages_div FOSSILS_PER_PAGE_def by linarith
  have j: "(totalPages tc - 1) * FOSSILS_PER_PAGE < tc"
    unfolding totalPages_div FOSSILS_PER_PAGE_def by presburger
  have k: "totalPages 0 = 0" by (simp add: totalPages_div)
  have l: "FOSSILS_PER_PAGE = 12" by (simp add: FOSSILS_PER_PAGE_def)
  have m: "totalPages 25 = 3" by (simp add: totalPages_div)
  have n: "{i. 0 \<le> i \<and> i < 25 \<and> page_from 3 12 \<le> i \<and> i \<le> page_to 3 12} = {24}"
    by (auto simp: page_from_def page_to_def)
  have o: "js_slice [0 ..< 25] (page_from 3 12) (page_from 3 12 + 12) = [24]"
    by code_simp
  from a b c d e f g h i j k l m n o show ?thesis by blast
qed

text \<open>
  C5 at page 3 of size 12 and a count of 25.
\<close>

theorem pagination_calculator_witness:
  "(1::int) \<le> 3 \<and> (0::int) < 12 \<and> (0::int) \<le> 25 \<and>
   page_from 3 12 = (3 - 1) * 12 \<and>
   page_to 3 12 = page_from 3 12 + 12 - 1 \<and>
   row_range (dataQuery 3 12 None) = Some ((3 - 1) * 12, (3 - 1) * 12 + 12 - 1) \<and>
   25 \<le> totalPages 25 * FOSSILS_PER_PAGE \<and>
   (totalPages 25 - 1) * FOSSILS_PER_PAGE < 25 \<and>
   totalPages 25 = 3"
proof -
  have p: "(1::int) \<le> 3" "(0::int) < 12" "(0::int) \<le> 25" by simp_all
  show ?thesis
    using pagination_calculator [OF p, of None] p by blast
qed

text \<open>
  C6, as stated, fails: the error state does not always hold the failure's own
  message. \<open>getErrorMessage\<close> reads the message of an \<open>Error\<close> instance only; when the
  data query resolves with an error object that is not one, here with the message
  \<open>permission denied\<close>, \<open>if (fetchError) throw fetchError\<close> throws that object and the
  error state holds the fixed text \<open>Failed to load fossils\<close>.
\<close>

theorem fetchAllFossils_plain_error_records_default:
  "cache_lookup 1 None initial_state = None \<and>
   failure_of (answer (failing_remote None denied) (dataQuery 1 12 None)) =
     Some (NotAnError ''permission denied'') \<and>
   result (fetchAllFossils (failing_remote None denied) 1 12 None initial_state) =
     Inl (NotAnError ''permission denied'') \<and>
   errorAll (state (fetchAllFossils (failing_remote None denied) 1 12 None initial_state)) =
     ''Failed to load fossils'' \<and>
   errorAll (state (fetchAllFossils (failing_remote None denied) 1 12 None initial_state)) \<noteq>
     ''permission denied''"
  by code_simp

text \<open>
  C6, amended. When, on a cache miss, the data query fails with \<open>e\<close> (it rejects, or
  resolves with an error), \<open>fetchAllFossils\<close> rejects with \<open>e\<close> itself; the error state
  holds the message of \<open>e\<close> when \<open>e\<close> is an \<open>Error\<close> instance and the fixed text
  \<open>Failed to load fossils\<close> otherwise; the loading flag is reset; and the fossils list,
  the total count and the keyed page cache are what they were: the state differs from
  the one before the call in the loading flag and the error string only.
\<close>

theorem fetchAllFossils_data_query_failure:
  assumes miss: "cache_lookup page filters st = None"
    and win: "window_defined r"
    and cnt: "answer r (countQuery filters) = Inr cr"
    and err: "failure_of (answer r (dataQuery page pageSize filters)) = Some e"
  shows "result (fetchAllFossils r page pageSize filters st) = Inl e \<and>
         errorAll (state (fetchAllFossils r page pageSize filters st)) =
           (case e of
              ErrorInstance message \<Rightarrow> message
            | NotAnError other \<Rightarrow> ''Failed to load fossils'') \<and>
         errorAll (state (fetchAllFossils r page pageSize filters st)) =
           getErrorMessage e DEFAULT_MESSAGE \<and>
         loadingAll (state (fetchAllFossils r page pageSize filters st)) = False \<and>
         allFossils (state (fetchAllFossils r page pageSize filters st)) = allFossils st \<and>
         allFossilsCount (state (fetchAllFossils r page pageSize filters st)) =
           allFossilsCount st \<and>
         allFossilsCache (state (fetchAllFossils r page pageSize filters st)) =
           allFossilsCache st \<and>
         state (fetchAllFossils r page pageSize filters st) =
           st\<lparr>loadingAll := False,
              errorAll :=
                (case e of
                   ErrorInstance message \<Rightarrow> message
                 | NotAnError other \<Rightarrow> ''Failed to load fossils'')\<rparr>"
proof -
  have thrown: "result (fetchAllFossils_try r page pageSize filters st) = Inl e"
    by (simp add: try_data_query_failure [OF win cnt err])
  have msg: "getErrorMessage e DEFAULT_MESSAGE =
      (case e of
         ErrorInstance message \<Rightarrow> message
       | NotAnError other \<Rightarrow> ''Failed to load fossils'')"
    by (simp add: getErrorMessage_def DEFAULT_MESSAGE_def split: thrown.splits)
  from fetchAllFossils_rethrows [OF miss thrown] show ?thesis
    by (simp add: msg)
qed

text \<open>
  The amended C6 on remotes that answer every query with an error: the \<open>Error\<close>
  instance \<open>boom\<close>, and the error object \<open>denied\<close>.
\<close>

theorem fetchAllFossils_data_query_failure_witness:
  "cache_lookup 1 None initial_state = None \<and>
   window_defined (failing_remote None boom) \<and>
   answer (failing_remote None boom) (countQuery None) =
     Inr \<lparr>res_data = None, res_count = None, res_error = Some (ErrorInstance ''boom'')\<rparr> \<and>
   failure_of (answer (failing_remote None boom) (dataQuery 1 12 None)) =
     Some (ErrorInstance ''boom'') \<and>
   result (fetchAllFossils (failing_remote None boom) 1 12 None initial_state) =
     Inl (ErrorInstance ''boom'') \<and>
   state (fetchAllFossils (failing_remote None boom) 1 12 None initial_state) =
     initial_state\<lparr>loadingAll := False, errorAll := ''boom''\<rparr> \<and>
   window_defined (failing_remote None denied) \<and>
   answer (failing_remote None denied) (countQuery None) =
     Inr \<lparr>res_data = None, res_count = None,
          res_error = Some (NotAnError ''permission denied'')\<rparr> \<and>
   failure_of (answer (failing_remote None denied) (dataQuery 1 12 None)) =
     Some (NotAnError ''permission denied'') \<and>
   result (fetchAllFossils (failing_remote None denied) 1 12 None initial_state) =
     Inl (NotAnError ''permission denied'') \<and>
   state (fetchAllFossils (failing_remote None denied) 1 12 None initial_state) =
     initial_state\<lparr>loadingAll := False, errorAll := ''Failed to load fossils''\<rparr>"
proof -
  have miss: "cache_lookup 1 None initial_state = None" by code_simp
  have win: "window_defined (failing_remote None boom)" by code_simp
  have cnt: "answer (failing_remote None boom) (countQuery None) =
     Inr \<lparr>res_data = None, res_count = None, res_error = Some (ErrorInstance ''boom'')\<rparr>"
    by code_simp
  have err: "failure_of (answer (failing_remote None boom) (dataQuery 1 12 None)) =
     Some (ErrorInstance ''boom'')"
    by code_simp
  have win': "window_defined (failing_remote None denied)" by code_simp
  have cnt': "answer (failing_remote None denied) (countQuery None) =
     Inr \<lparr>res_data = None, res_count = None,
          res_error = Some (NotAnError ''permission denied'')\<rparr>"
    by code_simp
  have err': "failure_of (answer (failing_remote None denied) (dataQuery 1 12 None)) =
     Some (NotAnError ''permission denied'')"
    by code_simp
  show ?thesis
    using fetchAllFossils_data_query_failure [OF miss win cnt err]
      fetchAllFossils_data_query_failure [OF miss win' cnt' err']
      miss win cnt err win' cnt' err'
    by simp
qed

section \<open>clearCache\<close>


text \<open>
  What does hold: \<open>clearCache\<close> sets the six fields to their initial values, no key has
  a cached entry in the cleared state, and a \<open>fetchAllFossils\<close> call through the
  callback of the render that follows the clear, for any page and filters, goes to
  the remote side: its first request is the count query.
\<close>

theorem clearCache_forces_refetch:
  "allFossils (clearCache st) = allFossils initial_state \<and>
   userFossils (clearCache st) = userFossils initial_state \<and>
   allFossilsCache (clearCache st) = allFossilsCache initial_state \<and>
   userFossilsCached (clearCache st) = userFossilsCached initial_state \<and>
   errorAll (clearCache st) = errorAll initial_state \<and>
   errorUser (clearCache st) = errorUser initial_state \<and>
   allFossils (clearCache st) = [] \<and> userFossils (clearCache st) = [] \<and>
   allFossilsCache (clearCache st) = [] \<and> \<not> userFossilsCached (clearCache st) \<and>
   errorAll (clearCache st) = [] \<and> errorUser (clearCache st) = [] \<and>
   cache_lookup page filters (clearCache st) = None \<and>
   (window_defined r \<longrightarrow>
      take 1 (requests (fetchAllFossils r page pageSize filters (clearCache st))) =
        [Select (countQuery filters)])"
proof -
  have "window_defined r \<Longrightarrow>
      take 1 (requests (fetchAllFossils r page pageSize filters (clearCache st))) =
        [Select (countQuery filters)]"
    using try_requests_first [of r page pageSize filters "clearCache st"]
    by (simp add: fetchAllFossils_miss [OF cache_lookup_clearCache] Let_def split: sum.splits)
  then show ?thesis
    by (simp add: cache_lookup_clearCache) (simp add: clearCache_def initial_state_def)
qed

text \<open>
  The same for a key that was cached before the clear: page 1 without filters.
\<close>

theorem clearCache_forces_refetch_witness:
  "cache_lookup 1 None (state (fetchAllFossils sample_remote 1 12 None initial_state)) =
     Some \<lparr>fossils = [ammonite, trilobite], totalCount = 2\<rparr> \<and>
   window_defined sample_remote \<and>
   cache_lookup 1 None
     (clearCache (state (fetchAllFossils sample_remote 1 12 None initial_state))) = None \<and>
   take 1 (requests (fetchAllFossils sample_remote 1 12 None
     (clearCache (state (fetchAllFossils sample_remote 1 12 None initial_state))))) =
     [Select (countQuery None)]"
proof -
  have c: "cache_lookup 1 None (state (fetchAllFossils sample_remote 1 12 None initial_state)) =
     Some \<lparr>fossils = [ammonite, trilobite], totalCount = 2\<rparr>" by code_simp
  have win: "window_defined sample_remote" by code_simp
  show ?thesis
    using clearCache_forces_refetch
      [of "state (fetchAllFossils sample_remote 1 12 None initial_state)" 1 None sample_remote 12]
      c win
    by blast
qed

section \<open>fetchUserFossils\<close>

text \<open>
  C8. After a successful \<open>fetchUserFossils(filters)\<close>, a repeated call whose filters
  serialise to the same string is a no-op (no request, no state change). Any call whose
  filters serialise differently performs a fresh fetch: it goes to the remote side
  (its first request is the user lookup) and, the fetch succeeding as the first one
  did, sends the user's query and overwrites both the loaded flag and the stored
  filter set with its own.
\<close>

theorem fetchUserFossils_loaded_flag:
  assumes first: "user_fetch_succeeds ra fa"
  shows "(JSON_stringify same = JSON_stringify fa \<longrightarrow>
            fetchUserFossils rb same (state (fetchUserFossils ra fa st)) =
              \<lparr>result = Inr (), state = state (fetchUserFossils ra fa st), requests = []\<rparr>) \<and>
         (JSON_stringify other \<noteq> JSON_stringify fa \<and> window_defined rb \<longrightarrow>
            take 1 (requests (fetchUserFossils rb other (state (fetchUserFossils ra fa st)))) =
              [AuthGetUser]) \<and>
         (JSON_stringify other \<noteq> JSON_stringify fa \<and> user_fetch_succeeds rb other \<longrightarrow>
            (\<exists>user. getUser rb = Inr (Some user) \<and>
               requests (fetchUserFossils rb other (state (fetchUserFossils ra fa st))) =
                 [AuthGetUser, Select (userQuery user other)]) \<and>
            userFossilsCached
              (state (fetchUserFossils rb other (state (fetchUserFossils ra fa st)))) \<and>
            userFossilsFilters
              (state (fetchUserFossils rb other (state (fetchUserFossils ra fa st)))) = other)"
proof -
  let ?st1 = "state (fetchUserFossils ra fa st)"
  from after_successful_user_fetch [OF first, of st]
  have cached: "userFossilsCached ?st1"
    and ser: "JSON_stringify (userFossilsFilters ?st1) = JSON_stringify fa"
    by simp_all
  have a: "fetchUserFossils rb same ?st1 = \<lparr>result = Inr (), state = ?st1, requests = []\<rparr>"
    if "JSON_stringify same = JSON_stringify fa"
    using that cached ser by (simp add: fetchUserFossils_short filtersMatch_def)
  have fresh: "\<not> (userFossilsCached ?st1 \<and> filtersMatch other ?st1)"
    if "JSON_stringify other \<noteq> JSON_stringify fa"
    using that ser by (simp add: filtersMatch_def)
  have b: "take 1 (requests (fetchUserFossils rb other ?st1)) = [AuthGetUser]"
    if "JSON_stringify other \<noteq> JSON_stringify fa" and "window_defined rb"
    using user_try_first_request [OF that(2), of other ?st1]
    by (simp add: fetchUserFossils_fresh [OF fresh [OF that(1)]] Let_def split: sum.splits)
  have c: "(\<exists>user. getUser rb = Inr (Some user) \<and>
               requests (fetchUserFossils rb other ?st1) =
                 [AuthGetUser, Select (userQuery user other)]) \<and>
            userFossilsCached (state (fetchUserFossils rb other ?st1)) \<and>
            userFossilsFilters (state (fetchUserFossils rb other ?st1)) = other"
    if "JSON_stringify other \<noteq> JSON_stringify fa" and "user_fetch_succeeds rb other"
    using user_try_succeeds [OF that(2), of ?st1]
    by (auto simp: fetchUserFossils_fresh [OF fresh [OF that(1)]] Let_def)
  from a b c show ?thesis by blast
qed

text \<open>
  C8 at concrete inputs: first no filters, then no filters again (also with nobody
  signed in any more), then the free-text query \<open>x\<close>.
\<close>

theorem fetchUserFossils_loaded_flag_witness:
  "user_fetch_succeeds sample_remote None \<and>
   JSON_stringify None = JSON_stringify None \<and>
   JSON_stringify (query_of ''x'') \<noteq> JSON_stringify None \<and>
   window_defined sample_remote \<and>
   user_fetch_succeeds sample_remote (query_of ''x'') \<and>
   fetchUserFossils signed_out_remote None
       (state (fetchUserFossils sample_remote None initial_state)) =
     \<lparr>result = Inr (), state = state (fetchUserFossils sample_remote None initial_state),
      requests = []\<rparr> \<and>
   take 1 (requests (fetchUserFossils sample_remote (query_of ''x'')
       (state (fetchUserFossils sample_remote None initial_state)))) = [AuthGetUser] \<and>
   userFossilsCached (state (fetchUserFossils sample_remote (query_of ''x'')
       (state (fetchUserFossils sample_remote None initial_state)))) \<and>
   userFossilsFilters (state (fetchUserFossils sample_remote (query_of ''x'')
       (state (fetchUserFossils sample_remote None initial_state)))) = query_of ''x''"
proof -
  have first: "user_fetch_succeeds sample_remote None" by code_simp
  have same: "JSON_stringify None = JSON_stringify None" by simp
  have other: "JSON_stringify (query_of ''x'') \<noteq> JSON_stringify None" by code_simp
  have win: "window_defined sample_remote" by code_simp
  have second: "user_fetch_succeeds sample_remote (query_of ''x'')" by code_simp
  show ?thesis
    using fetchUserFossils_loaded_flag
      [OF first, where same = None and rb = signed_out_remote and st = initial_state]
      fetchUserFossils_loaded_flag
      [OF first, where other = "query_of ''x''" and rb = sample_remote and st = initial_state]
      first same other win second
    by blast
qed

text \<open>
  C9, as stated, fails: when the loaded flag answers the call (same filters as the last
  successful call), the operation returns before it looks for a user, and records no
  message although nobody is signed in.
\<close>

theorem fetchUserFossils_signed_out_after_load_is_silent:
  "getUser signed_out_remote = Inr None \<and>
   fetchUserFossils signed_out_remote None
       (state (fetchUserFossils sample_remote None initial_state)) =
     \<lparr>result = Inr (), state = state (fetchUserFossils sample_remote None initial_state),
      requests = []\<rparr> \<and>
   errorUser
     (state (fetchUserFossils signed_out_remote None
        (state (fetchUserFossils sample_remote None initial_state)))) = [] \<and>
   errorUser
     (state (fetchUserFossils signed_out_remote None
        (state (fetchUserFossils sample_remote None initial_state)))) \<noteq> NOT_LOGGED_IN"
  by code_simp

text \<open>
  C9, amended. When nobody is signed in and the loaded flag does not answer the call,
  \<open>fetchUserFossils\<close> records the message \<open>You must be logged in to view your
  fossils\<close> in the user error state and returns; its only request is the user lookup
  (no query against the fossils table), and the state differs from the one before the
  call in the error string and the loading flag only, so the user-fossils list and the
  loaded flag are unchanged.
\<close>

theorem fetchUserFossils_requires_user:
  assumes fresh: "\<not> (userFossilsCached st \<and> filtersMatch filters st)"
    and win: "window_defined r"
    and nouser: "getUser r = Inr None"
  shows "fetchUserFossils r filters st =
           \<lparr>result = Inr (),
            state = st\<lparr>loadingUser := False, errorUser := NOT_LOGGED_IN\<rparr>,
            requests = [AuthGetUser]\<rparr> \<and>
         errorUser (state (fetchUserFossils r filters st)) =
           ''You must be logged in to view your fossils'' \<and>
         userFossils (state (fetchUserFossils r filters st)) = userFossils st \<and>
         userFossilsCached (state (fetchUserFossils r filters st)) = userFossilsCached st"
proof -
  have "fetchUserFossils_try r filters st =
          \<lparr>result = Inr (),
           state = st\<lparr>loadingUser := False, errorUser := NOT_LOGGED_IN\<rparr>,
           requests = [AuthGetUser]\<rparr>"
    using win nouser by (simp add: fetchUserFossils_try_def createClient_def Let_def)
  then show ?thesis
    by (simp add: fetchUserFossils_fresh [OF fresh] Let_def NOT_LOGGED_IN_def)
qed

text \<open>
  The amended C9 on the initial state with nobody signed in.
\<close>

theorem fetchUserFossils_requires_user_witness:
  "\<not> (userFossilsCached initial_state \<and> filtersMatch None initial_state) \<and>
   window_defined signed_out_remote \<and>
   getUser signed_out_remote = Inr None \<and>
   fetchUserFossils signed_out_remote None initial_state =
     \<lparr>result = Inr (),
      state = initial_state\<lparr>loadingUser := False, errorUser := NOT_LOGGED_IN\<rparr>,
      requests = [AuthGetUser]\<rparr>"
proof -
  have fresh: "\<not> (userFossilsCached initial_state \<and> filtersMatch None initial_state)"
    by code_simp
  have win: "window_defined signed_out_remote" by code_simp
  have nouser: "getUser signed_out_remote = Inr None" by code_simp
  show ?thesis
    using fetchUserFossils_requires_user [OF fresh win nouser] fresh win nouser by blast
qed

text \<open>
  C10. \<open>fetchUserFossils\<close> never rejects: for every remote, filter argument and
  state its promise resolves. Whenever the loaded flag does not answer the call, the
  loading flag is reset; and when the \<open>try\<close> block throws \<open>e\<close> (the client cannot be
  created, an awaited call rejects, or the query resolves with an error), the state
  differs from the one before the call in the loading flag and the user error string,
  which holds \<open>getErrorMessage e\<close>, only. \<open>fetchAllFossils\<close>, in contrast, rejects with
  what its \<open>try\<close> block throws.
\<close>

theorem fetchUserFossils_never_rejects:
  "result (fetchUserFossils r filters st) = Inr () \<and>
   (\<not> (userFossilsCached st \<and> filtersMatch filters st) \<longrightarrow>
      loadingUser (state (fetchUserFossils r filters st)) = False) \<and>
   (\<not> (userFossilsCached st \<and> filtersMatch filters st) \<and>
    result (fetchUserFossils_try r filters st) = Inl e \<longrightarrow>
      state (fetchUserFossils r filters st) =
        st\<lparr>loadingUser := False, errorUser := getErrorMessage e DEFAULT_MESSAGE\<rparr>) \<and>
   (cache_lookup page filters st = None \<and>
    result (fetchAllFossils_try r page pageSize filters st) = Inl e' \<longrightarrow>
      result (fetchAllFossils r page pageSize filters st) = Inl e')"
proof -
  let ?short = "userFossilsCached st \<and> filtersMatch filters st"
  have a: "result (fetchUserFossils r filters st) = Inr ()"
    by (simp add: fetchUserFossils_def fetchUserFossils_callback_def Let_def split: sum.splits)
  have b: "loadingUser (state (fetchUserFossils r filters st)) = False" if "\<not> ?short"
    by (simp add: fetchUserFossils_fresh [OF that] Let_def split: sum.splits)
  have c: "state (fetchUserFossils r filters st) =
        st\<lparr>loadingUser := False, errorUser := getErrorMessage e DEFAULT_MESSAGE\<rparr>"
    if "\<not> ?short" and "result (fetchUserFossils_try r filters st) = Inl e"
    using that(2) user_try_throws_state [OF that(2)]
    by (simp add: fetchUserFossils_fresh [OF that(1)] Let_def)
  have d: "result (fetchAllFossils r page pageSize filters st) = Inl e'"
    if "cache_lookup page filters st = None"
      and "result (fetchAllFossils_try r page pageSize filters st) = Inl e'"
    using fetchAllFossils_rethrows [OF that] by simp
  from a b c d show ?thesis by blast
qed

text \<open>
  C10 on a remote that answers every query with the error \<open>boom\<close>.
\<close>

theorem fetchUserFossils_never_rejects_witness:
  "\<not> (userFossilsCached initial_state \<and> filtersMatch None initial_state) \<and>
   result (fetchUserFossils_try (failing_remote (Some alice) boom) None initial_state) =
     Inl boom \<and>
   cache_lookup 1 None initial_state = None \<and>
   result (fetchAllFossils_try (failing_remote (Some alice) boom) 1 12 None initial_state) =
     Inl boom \<and>
   result (fetchUserFossils (failing_remote (Some alice) boom) None initial_state) = Inr () \<and>
   loadingUser (state (fetchUserFossils (failing_remote (Some alice) boom) None initial_state)) =
     False \<and>
   state (fetchUserFossils (failing_remote (Some alice) boom) None initial_state) =
     initial_state\<lparr>loadingUser := False, errorUser := getErrorMessage boom DEFAULT_MESSAGE\<rparr> \<and>
   result (fetchAllFossils (failing_remote (Some alice) boom) 1 12 None initial_state) =
     Inl boom"
proof -
  have fresh: "\<not> (userFossilsCached initial_state \<and> filtersMatch None initial_state)"
    by code_simp
  have thrown: "result (fetchUserFossils_try (failing_remote (Some alice) boom) None
     initial_state) = Inl boom" by code_simp
  have miss: "cache_lookup 1 None initial_state = None" by code_simp
  have thrown_all: "result (fetchAllFossils_try (failing_remote (Some alice) boom) 1 12 None
     initial_state) = Inl boom" by code_simp
  show ?thesis
    using fetchUserFossils_never_rejects
      [where r = "failing_remote (Some alice) boom" and filters = None
         and st = initial_state and e = boom and e' = boom and page = 1 and pageSize = 12]
      fresh thrown miss thrown_all
    by blast
qed

end
